theory Spec2Isabelle
  imports Complex_Main
begin

section \<open>The fraud consumer: data model\<close>

text \<open>
  The embedding follows \<^verbatim>\<open>src/fraud-consumer/app/main.py\<close>. Conventions:
  \<^item> a Python \<^verbatim>\<open>str\<close> is a \<open>string\<close>, one \<open>char\<close> per code point (code points below 256);
  \<^item> a Python \<^verbatim>\<open>int\<close> is an \<open>int\<close>; a Python \<^verbatim>\<open>float\<close> is idealised as the real number it
    denotes (no rounding, no NaN or infinity), so the arithmetic of \<^verbatim>\<open>score\<close> is exact;
  \<^item> an exception is a value of type \<open>exn\<close>, and a call that may raise returns \<open>exn + 'a\<close>;
  \<^item> the mutable world (the two tables, the connection handle, the bucket, standard output,
    the queue's delete calls) is an explicit state that every effectful function returns
    updated.
\<close>

subsection \<open>JSON values and exceptions\<close>

text \<open>
  What \<^verbatim>\<open>json.loads\<close> returns. A dict keeps its insertion order (an association list);
  a float literal is kept as the decimal \<open>m * 10 ^ e\<close> it denotes.
\<close>

datatype json =
    JNull
  | JBool bool
  | JInt int
  | JFloat int int
  | JStr string
  | JArr "json list"
  | JObj "(string \<times> json) list"

datatype exn =
    JSONDecodeError
  | KeyError string
  | TypeError
  | AttributeError
  | OperationalError
  | DatabaseError
  | ClientError

text \<open>\<^verbatim>\<open>tx[key]\<close>: a missing key raises KeyError; a value that is not a dict raises TypeError.\<close>

definition getitem :: "json \<Rightarrow> string \<Rightarrow> exn + json" where
  "getitem tx key =
     (case tx of
        JObj kvs \<Rightarrow> (case map_of kvs key of None \<Rightarrow> Inl (KeyError key) | Some v \<Rightarrow> Inr v)
      | _ \<Rightarrow> Inl TypeError)"

text \<open>\<^verbatim>\<open>str.encode()\<close>: UTF-8, two bytes for a code point from 128 to 255.\<close>

definition encode :: "string \<Rightarrow> string" where
  "encode s =
     concat (map (\<lambda>c. if of_char c < (128::nat) then [c]
                        else [char_of (192 + of_char c div (64::nat)),
                              char_of (128 + of_char c mod (64::nat))]) s)"

text \<open>
  The value of the left operand of \<^verbatim>\<open>tx["amount"] / 500.0\<close>: an int, a bool (a subclass of
  int in Python) or a float; for every other value the division raises TypeError.
\<close>

fun number :: "json \<Rightarrow> real option" where
  "number (JInt i) = Some (of_int i)"
| "number (JFloat m e) = Some (if 0 \<le> e then of_int m * 10 ^ nat e else of_int m / 10 ^ nat (- e))"
| "number (JBool b) = Some (if b then 1 else 0)"
| "number _ = None"

subsection \<open>The scorer\<close>

text \<open>
  \<^verbatim>\<open>
  def score(tx: dict) -> float:
      h = int(hashlib.sha256(tx["card_hash"].encode()).hexdigest(), 16) % 100
      base = tx["amount"] / 500.0
      return min(1.0, 0.3 * base + 0.7 * (h / 100.0))
  \<close>
  The library function \<^verbatim>\<open>hashlib.sha256\<close> is the parameter \<open>sha256\<close>: it maps the bytes to the
  digest read as an integer (what \<^verbatim>\<open>int(hexdigest, 16)\<close> yields). The statements are evaluated
  in the source's order, so an unusable \<^verbatim>\<open>card_hash\<close> is reported before an unusable
  \<^verbatim>\<open>amount\<close>.
\<close>

definition score :: "(string \<Rightarrow> nat) \<Rightarrow> json \<Rightarrow> exn + real" where
  "score sha256 tx =
     (case getitem tx ''card_hash'' of
        Inl e \<Rightarrow> Inl e
      | Inr c \<Rightarrow>
          (case c of
             JStr card_hash \<Rightarrow>
               (let h = sha256 (encode card_hash) mod 100 in
                (case getitem tx ''amount'' of
                   Inl e \<Rightarrow> Inl e
                 | Inr a \<Rightarrow>
                     (case number a of
                        None \<Rightarrow> Inl TypeError
                      | Some amount \<Rightarrow>
                          (let base = amount / 500
                           in Inr (min 1 (3 / 10 * base + 7 / 10 * (real h / 100)))))))
           | _ \<Rightarrow> Inl AttributeError))"


subsection \<open>Serialising: \<^verbatim>\<open>json.dumps\<close>\<close>

text \<open>
  \<^verbatim>\<open>json.dumps\<close> with its default arguments: the separators are a comma and a colon, each
  followed by a space; a string is quoted and, as \<^verbatim>\<open>ensure_ascii\<close> is on, every character
  outside the printable ASCII range is written as an escape. A float is printed as Python's
  \<^verbatim>\<open>repr\<close> prints the decimal (exact for literals of up to 15 significant digits).
\<close>

function dec :: "nat \<Rightarrow> string" where
  "dec n = (if n < 10 then [''0123456789'' ! n] else dec (n div 10) @ [''0123456789'' ! (n mod 10)])"
  by pat_completeness auto
termination
  by (relation "measure id") auto

declare dec.simps [simp del]

definition int_repr :: "int \<Rightarrow> string" where
  "int_repr i = (if i < 0 then CHR ''-'' # dec (nat (- i)) else dec (nat i))"

definition float_repr :: "int \<Rightarrow> int \<Rightarrow> string" where
  "float_repr m e =
     (if m = 0 then ''0.0''
      else
        (let all_digits = dec (nat \<bar>m\<bar>);
             ds = rev (dropWhile (\<lambda>c. c = CHR ''0'') (rev all_digits));
             n = int (length ds);
             decpt = int (length all_digits) + e;
             x = dec (nat \<bar>decpt - 1\<bar>);
             body =
               (if decpt \<le> - 4 \<or> 16 < decpt then
                  take 1 ds @ (if n = 1 then [] else CHR ''.'' # drop 1 ds) @ ''e'' @
                  (if decpt - 1 < 0 then ''-'' else ''+'') @ (if length x < 2 then CHR ''0'' # x else x)
                else if decpt \<le> 0 then ''0.'' @ replicate (nat (- decpt)) CHR ''0'' @ ds
                else if n \<le> decpt then ds @ replicate (nat (decpt - n)) CHR ''0'' @ ''.0''
                else take (nat decpt) ds @ ''.'' @ drop (nat decpt) ds)
         in if m < 0 then CHR ''-'' # body else body))"

definition escape :: "char \<Rightarrow> string" where
  "escape c =
     (if c = CHR 0x22 then [CHR 0x5C, CHR 0x22]
      else if c = CHR 0x5C then [CHR 0x5C, CHR 0x5C]
      else if c = CHR 0x0A then [CHR 0x5C, CHR ''n'']
      else if c = CHR 0x0D then [CHR 0x5C, CHR ''r'']
      else if c = CHR 0x09 then [CHR 0x5C, CHR ''t'']
      else if c = CHR 0x08 then [CHR 0x5C, CHR ''b'']
      else if c = CHR 0x0C then [CHR 0x5C, CHR ''f'']
      else if of_char c < (32::nat) \<or> (126::nat) < of_char c then
        [CHR 0x5C, CHR ''u'', CHR ''0'', CHR ''0'',
         ''0123456789abcdef'' ! (of_char c div 16), ''0123456789abcdef'' ! (of_char c mod 16)]
      else [c])"

definition str_repr :: "string \<Rightarrow> string" where
  "str_repr s = CHR 0x22 # concat (map escape s) @ [CHR 0x22]"

fun join :: "string \<Rightarrow> string list \<Rightarrow> string" where
  "join sep [] = []"
| "join sep [x] = x"
| "join sep (x # y # r) = x @ sep @ join sep (y # r)"

fun json_dumps :: "json \<Rightarrow> string" where
  "json_dumps JNull = ''null''"
| "json_dumps (JBool b) = (if b then ''true'' else ''false'')"
| "json_dumps (JInt i) = int_repr i"
| "json_dumps (JFloat m e) = float_repr m e"
| "json_dumps (JStr s) = str_repr s"
| "json_dumps (JArr xs) = ''['' @ join '', '' (map json_dumps xs) @ '']''"
| "json_dumps (JObj kvs) =
     ''{'' @ join '', '' (map (\<lambda>(k, v). str_repr k @ '': '' @ json_dumps v) kvs) @ ''}''"

subsection \<open>The environment and the world\<close>

text \<open>
  What the module takes from outside: the two library functions the claims do not look
  into (\<^verbatim>\<open>hashlib.sha256\<close>, with the digest read as an integer, and \<^verbatim>\<open>json.loads\<close>, which
  raises on a body that is not valid JSON) and the configured \<^verbatim>\<open>MODEL_VERSION\<close>.
\<close>

record env =
  hashlib_sha256 :: "string \<Rightarrow> nat"
  json_loads :: "string \<Rightarrow> exn + json"
  MODEL_VERSION :: string

text \<open>
  A row is the tuple of parameters the source passes to \<^verbatim>\<open>cur.execute\<close>:
  \<^verbatim>\<open>(txn_id, amount, merchant_id, ts, payload)\<close> for \<^verbatim>\<open>tx_raw\<close> and
  \<^verbatim>\<open>(txn_id, ts, amount, merchant_id, score, features)\<close> for \<^verbatim>\<open>tx_scored\<close>.
  An archived object is the transaction with the score and the model tag that
  \<^verbatim>\<open>{**tx, "score": s, "model": MODEL_VERSION}\<close> adds; its key and its compression are not
  modelled, the bucket is the list of the objects put, in order.
\<close>

type_synonym raw_row = "json \<times> json \<times> json \<times> json \<times> string"
type_synonym scored_row = "json \<times> json \<times> json \<times> json \<times> real \<times> string"
type_synonym archived = "json \<times> real \<times> string"
type_synonym entry = "string \<times> string"

record message =
  MessageId :: string
  ReceiptHandle :: string
  Body :: string

datatype line =
    Idle_heartbeat
  | Processed nat
  | Message_error string exn
  | Loop_error exn

datatype effect = Print line | Sleep nat | Delete_message_batch "entry list"

text \<open>
  The world: the two tables; the global \<^verbatim>\<open>conn\<close> (the number of the connection in use) and
  the count of connections opened so far; the bucket; and the trace of what the consumer
  printed, slept and asked the queue to delete. The three scripts say what the coming calls
  of the database driver (\<^verbatim>\<open>connect\<close>, \<^verbatim>\<open>cursor\<close>, \<^verbatim>\<open>execute\<close>), of \<^verbatim>\<open>put_object\<close> and of
  \<^verbatim>\<open>delete_message_batch\<close> will do: \<open>None\<close> for a call that succeeds, \<open>Some e\<close> for one that
  raises \<open>e\<close>; a call beyond the end of its script succeeds.
\<close>

record world =
  tx_raw :: "raw_row list"
  tx_scored :: "scored_row list"
  conn :: nat
  opened :: nat
  db_script :: "exn option list"
  bucket :: "archived list"
  s3_script :: "exn option list"
  sqs_script :: "exn option list"
  trace :: "effect list"

definition emit :: "effect \<Rightarrow> world \<Rightarrow> world" where
  "emit x w = w\<lparr>trace := trace w @ [x]\<rparr>"

definition db_call :: "world \<Rightarrow> (exn + unit) \<times> world" where
  "db_call w =
     (case db_script w of
        [] \<Rightarrow> (Inr (), w)
      | None # rest \<Rightarrow> (Inr (), w\<lparr>db_script := rest\<rparr>)
      | Some e # rest \<Rightarrow> (Inl e, w\<lparr>db_script := rest\<rparr>))"

subsection \<open>Connecting\<close>

text \<open>
  \<^verbatim>\<open>
  def pg_connect(retries: int = 10, delay: int = 3):
      last = None
      for _ in range(retries):
          try:
              c = psycopg2.connect(...); c.autocommit = True
              return c
          except Exception as e:
              last = e
              time.sleep(delay)
      raise last
  \<close>
  The connection returned is the next number; \<^verbatim>\<open>raise None\<close> is a TypeError in Python.
\<close>

fun pg_connect_from :: "nat \<Rightarrow> exn option \<Rightarrow> world \<Rightarrow> (exn + nat) \<times> world" where
  "pg_connect_from 0 last_exn w = (Inl (case last_exn of None \<Rightarrow> TypeError | Some e \<Rightarrow> e), w)"
| "pg_connect_from (Suc n) last_exn w =
     (case db_call w of
        (Inr _, w1) \<Rightarrow> (Inr (Suc (opened w1)), w1\<lparr>opened := Suc (opened w1)\<rparr>)
      | (Inl e, w1) \<Rightarrow> pg_connect_from n (Some e) (emit (Sleep 3) w1))"

definition pg_connect :: "world \<Rightarrow> (exn + nat) \<times> world" where
  "pg_connect w = pg_connect_from 10 None w"

subsection \<open>The relational writer\<close>

text \<open>
  Modelled from the spec: the schema of the two tables, which the source does not hold.
  The specification gives \<^verbatim>\<open>tx_raw(txn_id PRIMARY KEY, ...)\<close> and
  \<^verbatim>\<open>tx_scored(txn_id PRIMARY KEY, ...)\<close>, so \<^verbatim>\<open>INSERT ... ON CONFLICT DO NOTHING\<close> adds the row
  unless a row with the same \<^verbatim>\<open>txn_id\<close>, the first column, is already there.
\<close>

definition insert_on_conflict_do_nothing :: "json \<times> 'a \<Rightarrow> (json \<times> 'a) list \<Rightarrow> (json \<times> 'a) list" where
  "insert_on_conflict_do_nothing row table =
     (if fst row \<in> set (map fst table) then table else table @ [row])"

text \<open>The two parameter tuples; each \<^verbatim>\<open>tx[...]\<close> may raise, in the order written.\<close>

definition raw_params :: "json \<Rightarrow> exn + raw_row" where
  "raw_params tx =
     (case getitem tx ''txn_id'' of Inl e \<Rightarrow> Inl e | Inr txn_id \<Rightarrow>
      (case getitem tx ''amount'' of Inl e \<Rightarrow> Inl e | Inr amount \<Rightarrow>
       (case getitem tx ''merchant_id'' of Inl e \<Rightarrow> Inl e | Inr merchant_id \<Rightarrow>
        (case getitem tx ''ts'' of Inl e \<Rightarrow> Inl e | Inr ts \<Rightarrow>
           Inr (txn_id, amount, merchant_id, ts, json_dumps tx)))))"

definition scored_params :: "string \<Rightarrow> json \<Rightarrow> real \<Rightarrow> exn + scored_row" where
  "scored_params model_version tx s =
     (case getitem tx ''txn_id'' of Inl e \<Rightarrow> Inl e | Inr txn_id \<Rightarrow>
      (case getitem tx ''ts'' of Inl e \<Rightarrow> Inl e | Inr ts \<Rightarrow>
       (case getitem tx ''amount'' of Inl e \<Rightarrow> Inl e | Inr amount \<Rightarrow>
        (case getitem tx ''merchant_id'' of Inl e \<Rightarrow> Inl e | Inr merchant_id \<Rightarrow>
           Inr (txn_id, ts, amount, merchant_id, s,
                json_dumps (JObj [(''model'', JStr model_version)]))))))"

text \<open>
  The block \<^verbatim>\<open>with conn.cursor() as cur: cur.execute(...); cur.execute(...)\<close>, which the
  source writes twice, word for word: once under \<^verbatim>\<open>try\<close> and once in the handler. The
  connection is in autocommit mode, so the first insert stays when the second one raises.
\<close>

definition two_inserts :: "string \<Rightarrow> json \<Rightarrow> real \<Rightarrow> world \<Rightarrow> (exn + unit) \<times> world" where
  "two_inserts model_version tx s w =
     (case db_call w of
        (Inl e, w1) \<Rightarrow> (Inl e, w1)
      | (Inr _, w1) \<Rightarrow>
          (case raw_params tx of
             Inl e \<Rightarrow> (Inl e, w1)
           | Inr raw \<Rightarrow>
               (case db_call w1 of
                  (Inl e, w2) \<Rightarrow> (Inl e, w2)
                | (Inr _, w2) \<Rightarrow>
                    (let w3 = w2\<lparr>tx_raw := insert_on_conflict_do_nothing raw (tx_raw w2)\<rparr> in
                     (case scored_params model_version tx s of
                        Inl e \<Rightarrow> (Inl e, w3)
                      | Inr scored \<Rightarrow>
                          (case db_call w3 of
                             (Inl e, w4) \<Rightarrow> (Inl e, w4)
                           | (Inr _, w4) \<Rightarrow>
                               (Inr (), w4\<lparr>tx_scored :=
                                  insert_on_conflict_do_nothing scored (tx_scored w4)\<rparr>)))))))"

text \<open>
  \<^verbatim>\<open>
  def write_db(tx: dict, s: float) -> None:
      global conn
      try:
          <the two inserts>
      except OperationalError:
          conn = pg_connect()
          <the two inserts>
  \<close>
\<close>

definition write_db :: "string \<Rightarrow> json \<Rightarrow> real \<Rightarrow> world \<Rightarrow> (exn + unit) \<times> world" where
  "write_db model_version tx s w =
     (case two_inserts model_version tx s w of
        (Inr u, w1) \<Rightarrow> (Inr u, w1)
      | (Inl e, w1) \<Rightarrow>
          (if e = OperationalError then
             (case pg_connect w1 of
                (Inl e', w2) \<Rightarrow> (Inl e', w2)
              | (Inr c, w2) \<Rightarrow> two_inserts model_version tx s (w2\<lparr>conn := c\<rparr>))
           else (Inl e, w1)))"

subsection \<open>The archive writer\<close>

definition write_s3 :: "archived \<Rightarrow> world \<Rightarrow> (exn + unit) \<times> world" where
  "write_s3 obj w =
     (case s3_script w of
        [] \<Rightarrow> (Inr (), w\<lparr>bucket := bucket w @ [obj]\<rparr>)
      | None # rest \<Rightarrow> (Inr (), w\<lparr>s3_script := rest, bucket := bucket w @ [obj]\<rparr>)
      | Some e # rest \<Rightarrow> (Inl e, w\<lparr>s3_script := rest\<rparr>))"

subsection \<open>The consumer loop\<close>

text \<open>
  The body of the inner \<^verbatim>\<open>try\<close>, up to the entry that \<^verbatim>\<open>to_delete.append\<close> receives:
  \<^verbatim>\<open>
  tx = json.loads(m["Body"])
  s  = score(tx)
  write_db(tx, s)
  write_s3({**tx, "score": s, "model": MODEL_VERSION})
  to_delete.append({"Id": m["MessageId"], "ReceiptHandle": m["ReceiptHandle"]})
  \<close>
\<close>

definition process_message :: "env \<Rightarrow> message \<Rightarrow> world \<Rightarrow> (exn + entry) \<times> world" where
  "process_message env m w =
     (case json_loads env (Body m) of
        Inl e \<Rightarrow> (Inl e, w)
      | Inr tx \<Rightarrow>
          (case score (hashlib_sha256 env) tx of
             Inl e \<Rightarrow> (Inl e, w)
           | Inr s \<Rightarrow>
               (case write_db (MODEL_VERSION env) tx s w of
                  (Inl e, w1) \<Rightarrow> (Inl e, w1)
                | (Inr _, w1) \<Rightarrow>
                    (case write_s3 (tx, s, MODEL_VERSION env) w1 of
                       (Inl e, w2) \<Rightarrow> (Inl e, w2)
                     | (Inr _, w2) \<Rightarrow> (Inr (MessageId m, ReceiptHandle m), w2)))))"

text \<open>
  One turn of \<^verbatim>\<open>for m in msgs\<close>: the entry is appended, or the exception is caught and
  printed. Then the whole loop, from \<^verbatim>\<open>to_delete = []\<close>.
\<close>

definition attempt :: "env \<Rightarrow> entry list \<times> world \<Rightarrow> message \<Rightarrow> entry list \<times> world" where
  "attempt env acc m =
     (case process_message env m (snd acc) of
        (Inr entry, w') \<Rightarrow> (fst acc @ [entry], w')
      | (Inl inner, w') \<Rightarrow> (fst acc, emit (Print (Message_error (MessageId m) inner)) w'))"

definition process_batch :: "env \<Rightarrow> message list \<Rightarrow> world \<Rightarrow> entry list \<times> world" where
  "process_batch env msgs w = foldl (attempt env) ([], w) msgs"

definition delete_message_batch :: "entry list \<Rightarrow> world \<Rightarrow> (exn + unit) \<times> world" where
  "delete_message_batch entries w =
     (case sqs_script w of
        [] \<Rightarrow> (Inr (), emit (Delete_message_batch entries) w)
      | None # rest \<Rightarrow> (Inr (), emit (Delete_message_batch entries) (w\<lparr>sqs_script := rest\<rparr>))
      | Some e # rest \<Rightarrow> (Inl e, emit (Delete_message_batch entries) (w\<lparr>sqs_script := rest\<rparr>)))"

text \<open>
  What \<^verbatim>\<open>sqs.receive_message\<close> does in one iteration: it raises, or it returns the messages
  (none when the long poll ran out). One iteration of \<^verbatim>\<open>while True\<close> takes the idle counter
  and the world to the next ones; an exception of \<^verbatim>\<open>receive_message\<close> or of
  \<^verbatim>\<open>delete_message_batch\<close> reaches the outer handler, which prints it and sleeps 2 seconds.
\<close>

datatype received = Raises exn | Messages "message list"

definition poll_cycle :: "env \<Rightarrow> received \<Rightarrow> int \<times> world \<Rightarrow> int \<times> world" where
  "poll_cycle env r st =
     (case r of
        Raises e \<Rightarrow> (fst st, emit (Sleep 2) (emit (Print (Loop_error e)) (snd st)))
      | Messages msgs \<Rightarrow>
          (if msgs = [] then
             (let idle_ticks = fst st + 1 in
              if idle_ticks mod 10 = 0 then (idle_ticks, emit (Print Idle_heartbeat) (snd st))
              else (idle_ticks, snd st))
           else
             (let idle_ticks = 0;
                  (to_delete, w1) = process_batch env msgs (snd st) in
              if to_delete \<noteq> [] then
                (case delete_message_batch to_delete w1 of
                   (Inl e, w2) \<Rightarrow> (idle_ticks, emit (Sleep 2) (emit (Print (Loop_error e)) w2))
                 | (Inr _, w2) \<Rightarrow> (idle_ticks, emit (Print (Processed (length to_delete))) w2))
              else (idle_ticks, w1))))"

text \<open>
  \<^verbatim>\<open>consumer_loop\<close> never returns; \<open>consumer_loop env rs w\<close> is the state it has reached
  after \<open>length rs\<close> iterations, \<open>rs\<close> being what \<^verbatim>\<open>receive_message\<close> did in each of them.
\<close>

definition run_cycles :: "env \<Rightarrow> received list \<Rightarrow> int \<times> world \<Rightarrow> int \<times> world" where
  "run_cycles env rs st = foldl (\<lambda>st r. poll_cycle env r st) st rs"

definition consumer_loop :: "env \<Rightarrow> received list \<Rightarrow> world \<Rightarrow> int \<times> world" where
  "consumer_loop env rs w = run_cycles env rs (0, w)"

subsection \<open>Example inputs\<close>

text \<open>
  The examples hash the card hash \<^verbatim>\<open>abc\<close> only; \<open>sha256_of_abc\<close> stands for
  \<^verbatim>\<open>hashlib.sha256\<close> there and returns the SHA-256 digest of the bytes \<^verbatim>\<open>abc\<close>, whose
  remainder modulo 100 is 65.
\<close>

definition sha256_of_abc :: "string \<Rightarrow> nat" where
  "sha256_of_abc b = 0xba7816bf8f01cfea414140de5dae2223b00361a396177a9cb410ff61f20015ad"

definition tx_example :: "string \<Rightarrow> json \<Rightarrow> json" where
  "tx_example txn_id amount =
     JObj [(''txn_id'', JStr txn_id), (''amount'', amount), (''merchant_id'', JStr ''m7''),
           (''card_hash'', JStr ''abc''), (''ts'', JStr ''2024-05-01T10:00:00'')]"

text \<open>A transaction with the same card hash and amount 40 whose other fields all differ.\<close>

definition tx_other :: json where
  "tx_other =
     JObj [(''ts'', JStr ''1999-12-31T23:59:59''), (''card_hash'', JStr ''abc''),
           (''channel'', JNull), (''amount'', JInt 40), (''txn_id'', JStr ''zzz''),
           (''merchant_id'', JStr ''m50'')]"

section \<open>The scorer: properties\<close>











text \<open>
  C9. The score depends on the \<^verbatim>\<open>card_hash\<close> and \<^verbatim>\<open>amount\<close> entries only: two transactions
  on which these two lookups agree get the same result (the same score, or the same
  exception), whatever their other fields hold.
\<close>

theorem score_ignores_other_fields:
  assumes "getitem tx1 ''card_hash'' = getitem tx2 ''card_hash''"
    and "getitem tx1 ''amount'' = getitem tx2 ''amount''"
  shows "score sha256 tx1 = score sha256 tx2"
  unfolding score_def assms ..

theorem score_ignores_other_fields_witness:
  "score sha256_of_abc (tx_example ''t1'' (JInt 40)) = score sha256_of_abc tx_other"
  by (rule score_ignores_other_fields) (simp_all add: getitem_def tx_example_def tx_other_def)



end
